theory Spec2Isabelle
  imports Complex_Main "HOL-Library.AList"
begin

section \<open>The agent service of the chat backend\<close>

text \<open>
  A shallow embedding of \<^verbatim>\<open>AgentService\<close> and \<^verbatim>\<open>AgentManager\<close>
  (the second part of \<^verbatim>\<open>src/apps/backend/src/utils.ts\<close>).
  A leading underscore of a TypeScript name is dropped (\<^verbatim>\<open>_getModelConfig\<close> is
  \<open>getModelConfig\<close>), since an Isabelle name cannot start with one. Fields of different
  records share one name space, so the fields of a stored configuration carry the prefix
  \<open>config_\<close> and those of a chat the prefix \<open>chat_\<close> where the plain name is taken.
\<close>

subsection \<open>Values\<close>

type_synonym LlmProvider = string

record ModelSelection =
  provider :: LlmProvider
  modelId :: string

text \<open>
  A row of the per-project provider configuration, as the two queries of
  \<^verbatim>\<open>project-llm-config.queries\<close> return it: \<^verbatim>\<open>{provider, apiKey, baseUrl?}\<close>.
\<close>

record LlmConfig =
  config_provider :: LlmProvider
  config_apiKey :: string
  config_baseUrl :: "string option"

text \<open>
  The settings object handed to \<^verbatim>\<open>createProviderModel\<close>: \<^verbatim>\<open>apiKey\<close> is always
  there, \<^verbatim>\<open>baseURL\<close> only when it was spread in.
\<close>

record ProviderSettings =
  apiKey :: string
  baseURL :: "string option"

text \<open>
  Modelled from the spec: \<^verbatim>\<open>createProviderModel\<close> of \<^verbatim>\<open>agents/providers\<close> is not
  among the sources. It "constructs a provider client handle" from the provider, the
  settings and the model id; the handle is kept as these three arguments.
\<close>

datatype ProviderModel = createProviderModel LlmProvider ProviderSettings string

text \<open>
  \<^verbatim>\<open>throw Error('No model config found')\<close> is the only exception the service raises
  itself; a \<^verbatim>\<open>TypeError\<close> is what reading a property of \<^verbatim>\<open>undefined\<close> raises.
\<close>

datatype error = Error string | TypeError string

definition NoModelConfigured :: error where
  "NoModelConfigured = Error ''No model config found''"

text \<open>
  The collaborators the service reads: the two stored-configuration queries and the three
  environment lookups of \<^verbatim>\<open>utils/llm\<close>. None of them is among the sources, so each
  is a parameter. \<^verbatim>\<open>getEnvApiKey\<close> yields a string or \<^verbatim>\<open>undefined\<close>.
\<close>

record llm_env =
  getProjectLlmConfigs :: "string \<Rightarrow> LlmConfig list"
  getProjectLlmConfigByProvider :: "string \<Rightarrow> LlmProvider \<Rightarrow> LlmConfig option"
  getDefaultModelId :: "LlmProvider \<Rightarrow> string"
  getEnvApiKey :: "LlmProvider \<Rightarrow> string option"
  getEnvModelSelections :: "ModelSelection list"

text \<open>
  JavaScript truthiness of an optional string: \<^verbatim>\<open>undefined\<close> and the empty string are
  falsy. \<open>truthy\<close> keeps a truthy string and maps a falsy one to \<open>None\<close>.
\<close>

definition truthy :: "string option \<Rightarrow> string option" where
  "truthy v = (case v of None \<Rightarrow> None | Some s \<Rightarrow> if s = [] then None else Some s)"

subsection \<open>Model selection and model configuration\<close>

text \<open>
  \<^verbatim>\<open>_getResolvedModelSelection\<close> (lines 80-105). \<^verbatim>\<open>xs.at(0)\<close> is the first
  element or \<^verbatim>\<open>undefined\<close>; an object is always truthy.
\<close>

definition getResolvedModelSelection ::
    "llm_env \<Rightarrow> string \<Rightarrow> ModelSelection option \<Rightarrow> error + ModelSelection" where
  "getResolvedModelSelection env projectId modelSelection =
     (case modelSelection of
        Some sel \<Rightarrow> Inr sel
      | None \<Rightarrow>
          (case getProjectLlmConfigs env projectId of
             config # _ \<Rightarrow>
               Inr \<lparr>provider = config_provider config,
                    modelId = getDefaultModelId env (config_provider config)\<rparr>
           | [] \<Rightarrow>
               (case getEnvModelSelections env of
                  envSelection # _ \<Rightarrow> Inr envSelection
                | [] \<Rightarrow> Inl NoModelConfigured)))"

text \<open>
  \<^verbatim>\<open>_getModelConfig\<close> (lines 120-142). The spread
  \<^verbatim>\<open>...(config.baseUrl && { baseURL: config.baseUrl })\<close> adds \<^verbatim>\<open>baseURL\<close> only for a
  truthy \<^verbatim>\<open>baseUrl\<close>; \<^verbatim>\<open>if (envApiKey)\<close> takes a truthy key only.
\<close>

definition getModelConfig ::
    "llm_env \<Rightarrow> string \<Rightarrow> ModelSelection \<Rightarrow> error + ProviderModel" where
  "getModelConfig env projectId modelSelection =
     (case getProjectLlmConfigByProvider env projectId (provider modelSelection) of
        Some config \<Rightarrow>
          Inr (createProviderModel (provider modelSelection)
                 \<lparr>apiKey = config_apiKey config, baseURL = truthy (config_baseUrl config)\<rparr>
                 (modelId modelSelection))
      | None \<Rightarrow>
          (case truthy (getEnvApiKey env (provider modelSelection)) of
             Some envApiKey \<Rightarrow>
               Inr (createProviderModel (provider modelSelection)
                      \<lparr>apiKey = envApiKey, baseURL = None\<rparr>
                      (modelId modelSelection))
           | None \<Rightarrow> Inl NoModelConfigured))"

subsection \<open>Messages and the cache annotation\<close>

datatype role = system | user | assistant | tool

text \<open>
  A \<^verbatim>\<open>ModelMessage\<close>. \<^verbatim>\<open>providerOptions\<close> is an optional object of objects; an
  object is an association list in insertion order, its values (JSON) of a type \<open>'v\<close>
  left open.
\<close>

record 'v ModelMessage =
  role :: role
  content :: string
  providerOptions :: "(string \<times> (string \<times> 'v) list) list option"

text \<open>
  The two cache markers \<^verbatim>\<open>CACHE_1H\<close> and \<^verbatim>\<open>CACHE_5M\<close> of
  \<^verbatim>\<open>agents/providers\<close> are not among the sources: they are parameters.
\<close>

record 'v providers =
  CACHE_1H :: 'v
  CACHE_5M :: 'v

text \<open>
  Spreading \<^verbatim>\<open>undefined\<close> into an object literal adds nothing;
  \<^verbatim>\<open>{...o, k: v}\<close> overwrites \<^verbatim>\<open>k\<close> in place when \<^verbatim>\<open>o\<close> has it and appends it
  otherwise, which is \<^const>\<open>AList.update\<close>.
\<close>

definition spread :: "'a list option \<Rightarrow> 'a list" where
  "spread o' = (case o' of None \<Rightarrow> [] | Some kvs \<Rightarrow> kvs)"

text \<open>The local \<^verbatim>\<open>withCache\<close> of \<^verbatim>\<open>_withAnthropicCache\<close> (lines 275-281).\<close>

definition withCache :: "'v ModelMessage \<Rightarrow> 'v \<Rightarrow> 'v ModelMessage" where
  "withCache msg cache =
     msg\<lparr>providerOptions :=
       Some (AList.update ''anthropic''
               (AList.update ''cacheControl'' cache
                  (spread (map_of (spread (providerOptions msg)) ''anthropic'')))
               (spread (providerOptions msg)))\<rparr>"

text \<open>\<^verbatim>\<open>msg.providerOptions?.anthropic?.cacheControl\<close>: the cache hint a message carries.\<close>

definition cacheControl :: "'v ModelMessage \<Rightarrow> 'v option" where
  "cacheControl msg =
     (case providerOptions msg of
        None \<Rightarrow> None
      | Some po \<Rightarrow> (case map_of po ''anthropic'' of None \<Rightarrow> None | Some a \<Rightarrow> map_of a ''cacheControl''))"

text \<open>
  \<^verbatim>\<open>_withAnthropicCache\<close> (lines 272-289); \<^verbatim>\<open>messages.map((msg, idx) => ...)\<close>
  is a map over the messages paired with their indices.
\<close>

definition withAnthropicCache ::
    "('v, 'z) providers_scheme \<Rightarrow> 'v ModelMessage list \<Rightarrow> LlmProvider \<Rightarrow> 'v ModelMessage list" where
  "withAnthropicCache env messages provider' =
     (if provider' \<noteq> ''anthropic'' \<or> length messages = 0 then messages
      else
        let lastIdx = length messages - 1 in
        map (\<lambda>(idx, msg).
               if idx = 0 \<and> role msg = system then withCache msg (CACHE_1H env)
               else if idx = lastIdx \<and> idx \<noteq> 0 then withCache msg (CACHE_5M env)
               else msg)
            (enumerate 0 messages))"

text \<open>The \<^verbatim>\<open>prepareStep\<close> callback of the constructor (lines 161-162).\<close>

definition prepareStep ::
    "('v, 'z) providers_scheme \<Rightarrow> LlmProvider \<Rightarrow> 'v ModelMessage list \<Rightarrow> nat \<Rightarrow> 'v ModelMessage list option" where
  "prepareStep env provider' messages stepNumber =
     (if stepNumber = 0 then None else Some (withAnthropicCache env messages provider'))"

subsection \<open>Sessions and the registry\<close>

record AgentChat =
  chat_id :: string
  chat_title :: string
  createdAt :: int
  updatedAt :: int
  userId :: string
  projectId :: string

text \<open>
  An \<^verbatim>\<open>AgentManager\<close>. An \<^verbatim>\<open>AbortController\<close> is an object shared by reference,
  so a session holds its address and the state below says which controllers are
  aborted. The field \<^verbatim>\<open>_onDispose\<close> is not stored: the only constructor call (line 69)
  passes \<^verbatim>\<open>() => this._agents.delete(chat.id)\<close> for the very \<^verbatim>\<open>chat\<close> of the
  session, which is the function \<open>onDispose\<close> below. The field \<^verbatim>\<open>_agent\<close>, a
  \<^verbatim>\<open>ToolLoopAgent\<close> of the library built from \<^verbatim>\<open>modelConfig\<close>, is kept as that
  configuration; what its two generation methods answer is a parameter (\<open>agent_env\<close>
  below).
\<close>

record AgentManager =
  chat :: AgentChat
  modelConfig :: ProviderModel
  modelSelection :: ModelSelection
  abortController :: nat

text \<open>The arguments of one \<^verbatim>\<open>chatQueries.upsertMessage\<close> call (lines 205-212).\<close>

record ('ui, 'tu) upsert =
  up_message :: 'ui
  up_chatId :: string
  up_stopReason :: "string option"
  up_error :: "error option"
  up_tokenUsage :: 'tu
  up_llmProvider :: LlmProvider
  up_llmModelId :: string

text \<open>
  The mutable state: the map \<^verbatim>\<open>_agents\<close> of the service, the abort controllers that
  have been aborted, and the \<^verbatim>\<open>upsertMessage\<close> calls made so far, oldest first.
\<close>

record ('ui, 'tu) state =
  agents :: "string \<rightharpoonup> AgentManager"
  aborted :: "nat set"
  upserts :: "('ui, 'tu) upsert list"

text \<open>\<^verbatim>\<open>stop\<close> (lines 246-248): \<^verbatim>\<open>abort()\<close> sets the controller's signal.\<close>

definition stop :: "AgentManager \<Rightarrow> ('ui, 'tu) state \<Rightarrow> ('ui, 'tu) state" where
  "stop self s = s\<lparr>aborted := insert (abortController self) (aborted s)\<rparr>"

text \<open>
  Whether a session has been stopped: \<^verbatim>\<open>stop\<close> does nothing but abort the session's
  controller, so a stopped session is one whose controller is aborted.
\<close>

definition stopped :: "('ui, 'tu) state \<Rightarrow> AgentManager \<Rightarrow> bool" where
  "stopped s self = (abortController self \<in> aborted s)"

text \<open>The disposal callback \<^verbatim>\<open>() => this._agents.delete(chat.id)\<close> (line 73).\<close>

definition onDispose :: "AgentManager \<Rightarrow> ('ui, 'tu) state \<Rightarrow> ('ui, 'tu) state" where
  "onDispose self s = s\<lparr>agents := (agents s)(chat_id (chat self) := None)\<rparr>"

text \<open>\<^verbatim>\<open>_disposeAgent\<close> (lines 107-114).\<close>

definition disposeAgent :: "string \<Rightarrow> ('ui, 'tu) state \<Rightarrow> ('ui, 'tu) state" where
  "disposeAgent chatId s =
     (case agents s chatId of
        None \<Rightarrow> s
      | Some agent \<Rightarrow> (let s1 = stop agent s in s1\<lparr>agents := (agents s1)(chatId := None)\<rparr>))"

text \<open>\<^verbatim>\<open>get\<close> (lines 116-118).\<close>

definition get :: "string \<Rightarrow> ('ui, 'tu) state \<Rightarrow> AgentManager option" where
  "get chatId s = agents s chatId"

text \<open>
  \<^verbatim>\<open>create\<close> (lines 61-78), run without another task between its steps. An exception
  leaves the state as the steps before it made it, so the state is returned beside the
  result.
\<close>

definition create ::
    "llm_env \<Rightarrow> AgentChat \<Rightarrow> nat \<Rightarrow> ModelSelection option \<Rightarrow> ('ui, 'tu) state
       \<Rightarrow> (error + AgentManager) \<times> ('ui, 'tu) state" where
  "create env chat' abortController' modelSelection' s =
     (let s1 = disposeAgent (chat_id chat') s in
      case getResolvedModelSelection env (projectId chat') modelSelection' of
        Inl e \<Rightarrow> (Inl e, s1)
      | Inr resolvedModelSelection \<Rightarrow>
          (case getModelConfig env (projectId chat') resolvedModelSelection of
             Inl e \<Rightarrow> (Inl e, s1)
           | Inr modelConfig' \<Rightarrow>
               (let agent = \<lparr>chat = chat', modelConfig = modelConfig',
                              modelSelection = resolvedModelSelection,
                              abortController = abortController'\<rparr>
                in (Inr agent, s1\<lparr>agents := (agents s1)(chat_id chat' \<mapsto> agent)\<rparr>))))"








text \<open>\<^verbatim>\<open>checkIsUserOwner\<close> (lines 242-244) and \<^verbatim>\<open>getModelId\<close> (lines 291-293).\<close>

definition checkIsUserOwner :: "AgentManager \<Rightarrow> string \<Rightarrow> bool" where
  "checkIsUserOwner self userId' = (userId (chat self) = userId')"

definition getModelId :: "AgentManager \<Rightarrow> string" where
  "getModelId self = modelId (modelSelection self)"

subsection \<open>Running a session\<close>

text \<open>
  The result of the one-shot generation primitive, with the fields \<^verbatim>\<open>generate\<close>
  reads; \<^verbatim>\<open>finishReason\<close> may be absent, as the \<^verbatim>\<open>??\<close> of line 228 allows.
\<close>

record 'v step =
  toolCalls :: "(string \<times> string \<times> 'v) list"
  toolResults :: "(string \<times> 'v option) list"

record ('v, 'u) GenerateTextResult =
  gen_text :: string
  gen_totalUsage :: 'u
  gen_finishReason :: "string option"
  gen_responseMessages :: "'v ModelMessage list"
  gen_steps :: "'v step list"

text \<open>
  The result of the streaming primitive: \<^verbatim>\<open>totalUsage\<close> is a promise, which settles
  rejected (\<open>Inl\<close>) or fulfilled (\<open>Inr\<close>).
\<close>

record 'u StreamTextResult =
  totalUsage :: "error + 'u"

text \<open>\<^verbatim>\<open>AgentRunResult\<close> (lines 37-51).\<close>

record ('v, 'tu, 'tc) AgentRunResult =
  result_text :: string
  usage :: 'tu
  cost :: 'tc
  finishReason :: string
  durationMs :: int
  responseMessages :: "'v ModelMessage list"
  steps :: "'v step list"

text \<open>
  What a session calls outside this file: the prompt, the message conversion, the usage
  and cost converters, and the two generation primitives of its \<^verbatim>\<open>ToolLoopAgent\<close>,
  which get the settings the agent was built from, the messages and the abort signal (the
  controller's address). A primitive returns a result or raises; the converters and the
  prompt are taken to return.
\<close>

record ('ui, 'v, 'u, 'tu, 'tc) agent_env = "'v providers" +
  getInstructions :: string
  convertToModelMessages :: "'ui list \<Rightarrow> 'v ModelMessage list"
  convertToTokenUsage :: "'u \<Rightarrow> 'tu"
  convertToCost :: "'tu \<Rightarrow> LlmProvider \<Rightarrow> string \<Rightarrow> 'tc"
  agent_generate :: "ProviderModel \<Rightarrow> 'v ModelMessage list \<Rightarrow> nat \<Rightarrow> error + ('v, 'u) GenerateTextResult"
  agent_stream :: "ProviderModel \<Rightarrow> 'v ModelMessage list \<Rightarrow> nat \<Rightarrow> error + 'u StreamTextResult"

text \<open>\<^verbatim>\<open>_buildInitialMessages\<close> (lines 250-256).\<close>

definition buildInitialMessages ::
    "('ui, 'v, 'u, 'tu, 'tc) agent_env \<Rightarrow> 'ui list \<Rightarrow> LlmProvider \<Rightarrow> 'v ModelMessage list" where
  "buildInitialMessages env uiMessages provider' =
     (let modelMessages = convertToModelMessages env uiMessages;
          systemMessage = \<lparr>role = system, content = getInstructions env, providerOptions = None\<rparr>;
          messages = systemMessage # modelMessages
      in withAnthropicCache env messages provider')"

text \<open>
  \<^verbatim>\<open>Math.round\<close> of a finite number is the nearest integer, a half upwards; the result
  is exact.
\<close>

definition Math_round :: "real \<Rightarrow> int" where
  "Math_round x = \<lfloor>x + 1 / 2\<rfloor>"

text \<open>
  \<^verbatim>\<open>generate\<close> (lines 218-240). \<open>elapsed\<close> is the number that
  \<^verbatim>\<open>performance.now() - startTime\<close> evaluates to at line 224: the two clock readings and
  their floating-point difference are not computed here. When the awaited primitive
  raises, the exception leaves \<^verbatim>\<open>generate\<close> at line 220: nothing after it runs.
\<close>

definition generate ::
    "('ui, 'v, 'u, 'tu, 'tc) agent_env \<Rightarrow> real \<Rightarrow> AgentManager \<Rightarrow> 'ui list
       \<Rightarrow> ('ui, 'tu) state \<Rightarrow> (error + ('v, 'tu, 'tc) AgentRunResult) \<times> ('ui, 'tu) state" where
  "generate env elapsed self messages s =
     (case agent_generate env (modelConfig self)
             (buildInitialMessages env messages (provider (modelSelection self)))
             (abortController self) of
        Inl e \<Rightarrow> (Inl e, s)
      | Inr result \<Rightarrow>
          (let durationMs' = Math_round elapsed;
               usage' = convertToTokenUsage env (gen_totalUsage result);
               cost' = convertToCost env usage' (provider (modelSelection self))
                         (modelId (modelSelection self));
               finishReason' = (case gen_finishReason result of None \<Rightarrow> ''stop'' | Some r \<Rightarrow> r)
           in (Inr \<lparr>result_text = gen_text result, usage = usage', cost = cost',
                     finishReason = finishReason', durationMs = durationMs',
                     responseMessages = gen_responseMessages result,
                     steps = gen_steps result\<rparr>,
               onDispose self s)))"

text \<open>
  \<^verbatim>\<open>stream\<close> (lines 166-216) hands three callbacks to \<^verbatim>\<open>createUIMessageStream\<close>,
  which share the local variables \<^verbatim>\<open>error\<close> and \<^verbatim>\<open>result\<close>; \<^verbatim>\<open>result\<close> is
  declared without a value and assigned in \<^verbatim>\<open>execute\<close> once the primitive has
  returned.
\<close>

record 'u stream_vars =
  var_error :: "error option"
  var_result :: "'u StreamTextResult option"

definition stream_vars0 :: "'u stream_vars" where
  "stream_vars0 = \<lparr>var_error = None, var_result = None\<rparr>"

text \<open>What \<^verbatim>\<open>execute\<close> gives the writer.\<close>

datatype 'u written = data_newChat string string int int | merge "'u StreamTextResult"

text \<open>\<^verbatim>\<open>execute\<close> (lines 176-197): the outcome, what was written, and the variables.\<close>

definition execute ::
    "('ui, 'v, 'u, 'tu, 'tc) agent_env \<Rightarrow> AgentManager \<Rightarrow> 'ui list \<Rightarrow> bool \<Rightarrow> 'u stream_vars
       \<Rightarrow> (error + unit) \<times> 'u written list \<times> 'u stream_vars" where
  "execute env self uiMessages sendNewChatData vars =
     (let out = (if sendNewChatData
                 then [data_newChat (chat_id (chat self)) (chat_title (chat self))
                         (createdAt (chat self)) (updatedAt (chat self))]
                 else []);
          messages = buildInitialMessages env uiMessages (provider (modelSelection self))
      in case agent_stream env (modelConfig self) messages (abortController self) of
           Inl e \<Rightarrow> (Inl e, out, vars)
         | Inr result \<Rightarrow> (Inr (), out @ [merge result], vars\<lparr>var_result := Some result\<rparr>))"

text \<open>\<^verbatim>\<open>String(err)\<close> of an error object: its name, then its message if it has one.\<close>

fun String :: "error \<Rightarrow> string" where
  "String (Error m) = (if m = [] then ''Error'' else ''Error: '' @ m)"
| "String (TypeError m) = (if m = [] then ''TypeError'' else ''TypeError: '' @ m)"

text \<open>\<^verbatim>\<open>onError\<close> (lines 198-201).\<close>

definition onError :: "error \<Rightarrow> 'u stream_vars \<Rightarrow> string \<times> 'u stream_vars" where
  "onError err vars = (String err, vars\<lparr>var_error := Some err\<rparr>)"

text \<open>The event \<^verbatim>\<open>onFinish\<close> receives.\<close>

record 'ui finish_event =
  isAborted :: bool
  ev_finishReason :: "string option"
  responseMessage :: 'ui

text \<open>
  Modelled from the spec: \<^verbatim>\<open>chatQueries.upsertMessage\<close> is not among the sources; it
  "persists the resulting message together with stop reason, error (if any), usage, and
  the bound model selection". The call is appended to the log of the state.
\<close>

definition upsertMessage :: "('ui, 'tu) upsert \<Rightarrow> ('ui, 'tu) state \<Rightarrow> ('ui, 'tu) state" where
  "upsertMessage u s = s\<lparr>upserts := upserts s @ [u]\<rparr>"

text \<open>
  \<^verbatim>\<open>onFinish\<close> (lines 202-214). Reading \<^verbatim>\<open>result.totalUsage\<close> while \<^verbatim>\<open>result\<close> is
  still \<^verbatim>\<open>undefined\<close> raises a \<^verbatim>\<open>TypeError\<close>; awaiting a rejected promise raises its
  reason.
\<close>

definition onFinish ::
    "('ui, 'v, 'u, 'tu, 'tc) agent_env \<Rightarrow> AgentManager \<Rightarrow> 'u stream_vars \<Rightarrow> 'ui finish_event
       \<Rightarrow> ('ui, 'tu) state \<Rightarrow> (error + unit) \<times> ('ui, 'tu) state" where
  "onFinish env self vars e s =
     (let stopReason = (if isAborted e then Some ''interrupted'' else ev_finishReason e) in
      case var_result vars of
        None \<Rightarrow> (Inl (TypeError ''Cannot read properties of undefined (reading 'totalUsage')''), s)
      | Some result \<Rightarrow>
          (case totalUsage result of
             Inl err \<Rightarrow> (Inl err, s)
           | Inr u \<Rightarrow>
               (let tokenUsage = convertToTokenUsage env u;
                    s1 = upsertMessage
                           \<lparr>up_message = responseMessage e, up_chatId = chat_id (chat self),
                            up_stopReason = stopReason, up_error = var_error vars,
                            up_tokenUsage = tokenUsage,
                            up_llmProvider = provider (modelSelection self),
                            up_llmModelId = modelId (modelSelection self)\<rparr> s
                in (Inr (), onDispose self s1))))"

subsection \<open>Concrete inputs\<close>

text \<open>
  A deployment used below to run the definitions: project \<open>p2\<close> has a stored
  configuration for \<open>anthropic\<close> with a custom base URL, project \<open>p1\<close> has none, and the
  environment holds a key for \<open>openai\<close> only.
\<close>

definition stored_anthropic :: LlmConfig where
  "stored_anthropic =
     \<lparr>config_provider = ''anthropic'', config_apiKey = ''sk-a'',
      config_baseUrl = Some ''https://proxy''\<rparr>"

definition env1 :: llm_env where
  "env1 =
     \<lparr>getProjectLlmConfigs = (\<lambda>p. if p = ''p2'' then [stored_anthropic] else []),
      getProjectLlmConfigByProvider =
        (\<lambda>p q. if p = ''p2'' \<and> q = ''anthropic'' then Some stored_anthropic else None),
      getDefaultModelId = (\<lambda>q. if q = ''anthropic'' then ''claude'' else ''gpt''),
      getEnvApiKey = (\<lambda>q. if q = ''openai'' then Some ''sk-o'' else None),
      getEnvModelSelections = [\<lparr>provider = ''openai'', modelId = ''gpt''\<rparr>]\<rparr>"

text \<open>The same deployment with no environment key at all.\<close>

definition env0 :: llm_env where
  "env0 = env1\<lparr>getEnvApiKey := (\<lambda>q. None), getEnvModelSelections := []\<rparr>"

definition chat1 :: AgentChat where
  "chat1 =
     \<lparr>chat_id = ''c1'', chat_title = ''New chat'', createdAt = 10, updatedAt = 10,
      userId = ''u1'', projectId = ''p1''\<rparr>"

definition mistral :: ModelSelection where
  "mistral = \<lparr>provider = ''mistral'', modelId = ''large''\<rparr>"

text \<open>The session \<open>create\<close> builds for \<open>chat1\<close> from the environment key.\<close>

definition agent1 :: "nat \<Rightarrow> AgentManager" where
  "agent1 ac =
     \<lparr>chat = chat1,
      modelConfig = createProviderModel ''openai'' \<lparr>apiKey = ''sk-o'', baseURL = None\<rparr> ''gpt'',
      modelSelection = \<lparr>provider = ''openai'', modelId = ''gpt''\<rparr>,
      abortController = ac\<rparr>"


text \<open>The registry holding the session of \<open>chat1\<close> with controller 1, nothing aborted.\<close>

definition state1 :: "(string, nat) state" where
  "state1 = \<lparr>agents = [''c1'' \<mapsto> agent1 1], aborted = {}, upserts = []\<rparr>"




text \<open>
  Collaborators of a session whose primitives succeed: the one-shot result carries no
  finish reason. In \<open>aenv_length\<close> it carries the finish reason \<open>length\<close>; in
  \<open>aenv_failing\<close> the one-shot primitive raises instead.
\<close>

definition aenv :: "(string, string, nat, nat, nat) agent_env" where
  "aenv =
     \<lparr>CACHE_1H = ''1h'', CACHE_5M = ''5m'',
      getInstructions = ''Be helpful.'',
      convertToModelMessages = map (\<lambda>t. \<lparr>role = user, content = t, providerOptions = None\<rparr>),
      convertToTokenUsage = (\<lambda>u. u),
      convertToCost = (\<lambda>u p m. 2 * u),
      agent_generate = (\<lambda>mc msgs signal.
        Inr \<lparr>gen_text = ''hello'', gen_totalUsage = 7, gen_finishReason = None,
             gen_responseMessages = [], gen_steps = []\<rparr>),
      agent_stream = (\<lambda>mc msgs signal. Inr \<lparr>totalUsage = Inr 7\<rparr>)\<rparr>"

definition aenv_length :: "(string, string, nat, nat, nat) agent_env" where
  "aenv_length = aenv\<lparr>agent_generate := (\<lambda>mc msgs signal.
     Inr \<lparr>gen_text = ''hel'', gen_totalUsage = 9, gen_finishReason = Some ''length'',
          gen_responseMessages = [], gen_steps = []\<rparr>)\<rparr>"

definition aenv_failing :: "(string, string, nat, nat, nat) agent_env" where
  "aenv_failing = aenv\<lparr>agent_generate := (\<lambda>mc msgs signal. Inl (Error ''provider unavailable''))\<rparr>"

text \<open>A system message, a user message and an assistant message, none annotated.\<close>

definition msgs3 :: "string ModelMessage list" where
  "msgs3 =
     [\<lparr>role = system, content = ''Be helpful.'', providerOptions = None\<rparr>,
      \<lparr>role = user, content = ''hi'', providerOptions = None\<rparr>,
      \<lparr>role = assistant, content = ''hello'', providerOptions = None\<rparr>]"

text \<open>
  The variables of a \<^verbatim>\<open>stream\<close> call after \<^verbatim>\<open>execute\<close> has assigned \<^verbatim>\<open>result\<close>
  and no error was reported, and two terminal events: an aborted run for which the
  primitive reports the finish reason \<open>stop\<close>, and a run that ended by itself.
\<close>

definition vars_ok :: "nat stream_vars" where
  "vars_ok = \<lparr>var_error = None, var_result = Some \<lparr>totalUsage = Inr 7\<rparr>\<rparr>"

text \<open>The variables when the usage promise of the assigned \<^verbatim>\<open>result\<close> is rejected.\<close>

definition vars_rejected :: "nat stream_vars" where
  "vars_rejected =
     \<lparr>var_error = None, var_result = Some \<lparr>totalUsage = Inl (Error ''No output generated.'')\<rparr>\<rparr>"

definition ev_aborted :: "string finish_event" where
  "ev_aborted = \<lparr>isAborted = True, ev_finishReason = Some ''stop'', responseMessage = ''partial''\<rparr>"

definition ev_done :: "string finish_event" where
  "ev_done = \<lparr>isAborted = False, ev_finishReason = Some ''length'', responseMessage = ''full''\<rparr>"

section \<open>Model selection and configuration\<close>

text \<open>
  C3. Resolution order of the model selection: an explicit selection is returned as it is;
  without one, the first stored configuration of the project gives the provider, paired
  with that provider's default model id; without a stored configuration, the first
  selection of the environment is returned; and with neither, the call fails with
  \<open>NoModelConfigured\<close>.
\<close>

theorem resolve_order:
  "getResolvedModelSelection env pid (Some sel) = Inr sel \<and>
   (getProjectLlmConfigs env pid = config # configs \<longrightarrow>
      getResolvedModelSelection env pid None =
        Inr \<lparr>provider = config_provider config,
             modelId = getDefaultModelId env (config_provider config)\<rparr>) \<and>
   (getProjectLlmConfigs env pid = [] \<and> getEnvModelSelections env = envSelection # rest \<longrightarrow>
      getResolvedModelSelection env pid None = Inr envSelection) \<and>
   (getProjectLlmConfigs env pid = [] \<and> getEnvModelSelections env = [] \<longrightarrow>
      getResolvedModelSelection env pid None = Inl NoModelConfigured)"
  by (simp add: getResolvedModelSelection_def)

text \<open>
  The three tiers and the failure, on the deployment above: a stored configuration for
  \<open>anthropic\<close> wins over the environment's \<open>openai\<close>.
\<close>

theorem resolve_order_witness:
  "getResolvedModelSelection env1 ''p2'' (Some mistral) = Inr mistral \<and>
   getProjectLlmConfigs env1 ''p2'' = [stored_anthropic] \<and>
   getResolvedModelSelection env1 ''p2'' None = Inr \<lparr>provider = ''anthropic'', modelId = ''claude''\<rparr> \<and>
   getProjectLlmConfigs env1 ''p1'' = [] \<and>
   getEnvModelSelections env1 = [\<lparr>provider = ''openai'', modelId = ''gpt''\<rparr>] \<and>
   getResolvedModelSelection env1 ''p1'' None = Inr \<lparr>provider = ''openai'', modelId = ''gpt''\<rparr> \<and>
   getProjectLlmConfigs env0 ''p1'' = [] \<and> getEnvModelSelections env0 = [] \<and>
   getResolvedModelSelection env0 ''p1'' None = Inl NoModelConfigured"
  using resolve_order [of env1 "''p2''" mistral stored_anthropic "[]"]
    resolve_order [of env1 "''p1''" mistral _ _ "\<lparr>provider = ''openai'', modelId = ''gpt''\<rparr>" "[]"]
    resolve_order [of env0 "''p1''" mistral]
  by (simp add: env1_def env0_def stored_anthropic_def)

text \<open>
  C7. Precedence of the configuration loader: a stored configuration for the selection's
  provider is used with its key and its base URL (when it has a non-empty one); the
  environment key is used, with no base URL, only when nothing is stored; the call fails
  with \<open>NoModelConfigured\<close> when nothing is stored and the environment has no key; and
  the settings of any result come from one source alone.
\<close>

theorem load_precedence:
  "(getProjectLlmConfigByProvider env pid (provider sel) = Some config \<longrightarrow>
      getModelConfig env pid sel =
        Inr (createProviderModel (provider sel)
               \<lparr>apiKey = config_apiKey config, baseURL = truthy (config_baseUrl config)\<rparr>
               (modelId sel))) \<and>
   (getProjectLlmConfigByProvider env pid (provider sel) = None \<and>
    truthy (getEnvApiKey env (provider sel)) = Some key \<longrightarrow>
      getModelConfig env pid sel =
        Inr (createProviderModel (provider sel) \<lparr>apiKey = key, baseURL = None\<rparr> (modelId sel))) \<and>
   (getProjectLlmConfigByProvider env pid (provider sel) = None \<and>
    truthy (getEnvApiKey env (provider sel)) = None \<longrightarrow>
      getModelConfig env pid sel = Inl NoModelConfigured) \<and>
   (getModelConfig env pid sel = Inr (createProviderModel p settings m) \<longrightarrow>
      p = provider sel \<and> m = modelId sel \<and>
      (case getProjectLlmConfigByProvider env pid (provider sel) of
         Some config \<Rightarrow>
           settings = \<lparr>apiKey = config_apiKey config, baseURL = truthy (config_baseUrl config)\<rparr>
       | None \<Rightarrow>
           getEnvApiKey env (provider sel) = Some (apiKey settings) \<and> baseURL settings = None))"
  by (auto simp: getModelConfig_def truthy_def split: option.splits if_splits)

text \<open>
  The three cases on the deployment above, for project \<open>p2\<close>: the stored \<open>anthropic\<close>
  configuration with its base URL, the environment's \<open>openai\<close> key without one, and the
  failure for \<open>mistral\<close>.
\<close>

theorem load_precedence_witness:
  "getProjectLlmConfigByProvider env1 ''p2'' ''anthropic'' = Some stored_anthropic \<and>
   getModelConfig env1 ''p2'' \<lparr>provider = ''anthropic'', modelId = ''claude''\<rparr> =
     Inr (createProviderModel ''anthropic''
            \<lparr>apiKey = ''sk-a'', baseURL = Some ''https://proxy''\<rparr> ''claude'') \<and>
   getProjectLlmConfigByProvider env1 ''p2'' ''openai'' = None \<and>
   getEnvApiKey env1 ''openai'' = Some ''sk-o'' \<and>
   getModelConfig env1 ''p2'' \<lparr>provider = ''openai'', modelId = ''gpt''\<rparr> =
     Inr (createProviderModel ''openai'' \<lparr>apiKey = ''sk-o'', baseURL = None\<rparr> ''gpt'') \<and>
   getProjectLlmConfigByProvider env1 ''p2'' ''mistral'' = None \<and>
   getEnvApiKey env1 ''mistral'' = None \<and>
   getModelConfig env1 ''p2'' mistral = Inl NoModelConfigured \<and>
   \<lparr>apiKey = ''sk-a'', baseURL = Some ''https://proxy''\<rparr> =
     \<lparr>apiKey = config_apiKey stored_anthropic,
      baseURL = truthy (config_baseUrl stored_anthropic)\<rparr>"
proof -
  let ?anthropic = "\<lparr>provider = ''anthropic'', modelId = ''claude''\<rparr>"
  let ?proxied = "\<lparr>apiKey = ''sk-a'', baseURL = Some ''https://proxy''\<rparr>"
  have queries: "getProjectLlmConfigByProvider env1 ''p2'' ''anthropic'' = Some stored_anthropic"
    "getProjectLlmConfigByProvider env1 ''p2'' ''openai'' = None"
    "getEnvApiKey env1 ''openai'' = Some ''sk-o''"
    "getProjectLlmConfigByProvider env1 ''p2'' ''mistral'' = None"
    "getEnvApiKey env1 ''mistral'' = None"
    by (simp_all add: env1_def)
  have stored: "getModelConfig env1 ''p2'' ?anthropic =
      Inr (createProviderModel ''anthropic'' ?proxied ''claude'')"
    using load_precedence [of env1 "''p2''" ?anthropic stored_anthropic "[]" "[]"
        "\<lparr>apiKey = [], baseURL = None\<rparr>" "[]"]
    by (simp add: env1_def stored_anthropic_def truthy_def)
  have environment: "getModelConfig env1 ''p2'' \<lparr>provider = ''openai'', modelId = ''gpt''\<rparr> =
     Inr (createProviderModel ''openai'' \<lparr>apiKey = ''sk-o'', baseURL = None\<rparr> ''gpt'')"
    using load_precedence [of env1 "''p2''" "\<lparr>provider = ''openai'', modelId = ''gpt''\<rparr>"
        stored_anthropic "''sk-o''" "[]" "\<lparr>apiKey = [], baseURL = None\<rparr>" "[]"]
    by (simp add: env1_def truthy_def)
  have neither: "getModelConfig env1 ''p2'' mistral = Inl NoModelConfigured"
    using load_precedence [of env1 "''p2''" mistral stored_anthropic "[]" "[]"
        "\<lparr>apiKey = [], baseURL = None\<rparr>" "[]"]
    by (simp add: env1_def mistral_def truthy_def)
  have "getModelConfig env1 ''p2'' ?anthropic =
          Inr (createProviderModel ''anthropic'' ?proxied ''claude'') \<longrightarrow>
        (case getProjectLlmConfigByProvider env1 ''p2'' (provider ?anthropic) of
           Some config \<Rightarrow>
             ?proxied = \<lparr>apiKey = config_apiKey config, baseURL = truthy (config_baseUrl config)\<rparr>
         | None \<Rightarrow>
             getEnvApiKey env1 (provider ?anthropic) = Some (apiKey ?proxied) \<and>
             baseURL ?proxied = None)"
    using load_precedence [of env1 "''p2''" ?anthropic stored_anthropic "[]" "''anthropic''"
        ?proxied "''claude''"]
    by blast
  with stored have one_source:
    "?proxied = \<lparr>apiKey = config_apiKey stored_anthropic,
                 baseURL = truthy (config_baseUrl stored_anthropic)\<rparr>"
    by (simp only: ModelSelection.simps queries option.case)
  from queries stored environment neither one_source show ?thesis by blast
qed

section \<open>The registry\<close>

lemma aborted_disposeAgent: "aborted s \<subseteq> aborted (disposeAgent chatId s)"
  by (auto simp: disposeAgent_def stop_def Let_def split: option.splits)

lemma agents_disposeAgent: "agents (disposeAgent chatId s) = (agents s)(chatId := None)"
  by (auto simp: disposeAgent_def stop_def Let_def split: option.splits)

lemma disposeAgent_stops: "agents s chatId = Some a \<Longrightarrow> stopped (disposeAgent chatId s) a"
  by (simp add: disposeAgent_def stop_def stopped_def Let_def)

lemma aborted_create: "aborted (snd (create env c ac sel s)) = aborted (disposeAgent (chat_id c) s)"
  by (simp add: create_def Let_def split: sum.splits)

lemma create_mono: "stopped s a \<Longrightarrow> stopped (snd (create env c ac sel s)) a"
  using aborted_disposeAgent [of s "chat_id c"] by (auto simp: stopped_def aborted_create)

lemma create_stops: "agents s (chat_id c) = Some a \<Longrightarrow> stopped (snd (create env c ac sel s)) a"
  using disposeAgent_stops [of s "chat_id c" a] by (simp add: stopped_def aborted_create)

lemma create_agents:
  "agents (snd (create env c ac sel s)) (chat_id c) =
     (case fst (create env c ac sel s) of Inl e \<Rightarrow> None | Inr a \<Rightarrow> Some a)"
  by (simp add: create_def Let_def agents_disposeAgent split: sum.splits)

lemma create_error: "fst (create env c ac sel s) = Inl e \<Longrightarrow> e = NoModelConfigured"
  by (auto simp: create_def Let_def getResolvedModelSelection_def getModelConfig_def
      split: sum.splits option.splits list.splits)

















section \<open>The cache annotation\<close>

lemma role_withCache: "role (withCache m c) = role m"
  by (simp add: withCache_def)

lemma content_withCache: "content (withCache m c) = content m"
  by (simp add: withCache_def)

lemma cacheControl_withCache: "cacheControl (withCache m c) = Some c"
  by (simp add: withCache_def cacheControl_def update_conv')

lemma withCache_idem: "withCache (withCache m c) c = withCache m c"
  by (simp add: withCache_def spread_def update_conv')

lemma length_withAnthropicCache: "length (withAnthropicCache env messages p) = length messages"
  by (simp add: withAnthropicCache_def Let_def)

lemma withAnthropicCache_other:
  "p \<noteq> ''anthropic'' \<Longrightarrow> withAnthropicCache env messages p = messages"
  by (simp add: withAnthropicCache_def)

text \<open>What the annotation does to the message at each index.\<close>

lemma nth_withAnthropicCache:
  assumes "i < length messages"
  shows "withAnthropicCache env messages ''anthropic'' ! i =
     (if i = 0 \<and> role (messages ! i) = system then withCache (messages ! i) (CACHE_1H env)
      else if i = length messages - 1 \<and> i \<noteq> 0 then withCache (messages ! i) (CACHE_5M env)
      else messages ! i)"
proof -
  define f where "f = (\<lambda>(idx, msg).
     if idx = 0 \<and> role msg = system then withCache msg (CACHE_1H env)
     else if idx = length messages - 1 \<and> idx \<noteq> 0 then withCache msg (CACHE_5M env)
     else msg)"
  from assms have "length messages \<noteq> 0" by auto
  then have "withAnthropicCache env messages ''anthropic'' = map f (enumerate 0 messages)"
    unfolding withAnthropicCache_def Let_def f_def by simp
  then have "withAnthropicCache env messages ''anthropic'' ! i = f (enumerate 0 messages ! i)"
    using assms by (simp only: nth_map length_enumerate)
  also have "enumerate 0 messages ! i = (i, messages ! i)"
    using assms by (simp add: nth_enumerate_eq)
  finally show ?thesis by (simp only: f_def prod.case)
qed

lemma role_annotated:
  "role (if A then withCache m c1 else if B then withCache m c2 else m) = role m"
  by (simp add: role_withCache)

lemma annotated_twice:
  "(if A then withCache (if A then withCache m c1 else if B then withCache m c2 else m) c1
    else if B then withCache (if A then withCache m c1 else if B then withCache m c2 else m) c2
    else (if A then withCache m c1 else if B then withCache m c2 else m)) =
   (if A then withCache m c1 else if B then withCache m c2 else m)"
  by (simp add: withCache_idem)

lemma role_nth_withAnthropicCache:
  assumes "i < length messages"
  shows "role (withAnthropicCache env messages p ! i) = role (messages ! i)"
proof (cases "p = ''anthropic''")
  case True
  show ?thesis unfolding True nth_withAnthropicCache [OF assms] by (rule role_annotated)
next
  case False
  show ?thesis unfolding withAnthropicCache_other [OF False] by (rule refl)
qed

text \<open>
  C5. The annotation is idempotent, for every message sequence and provider: annotating
  an annotated sequence gives the annotated sequence again, so hints are replaced and
  never compounded.
\<close>

theorem annotate_idempotent:
  "withAnthropicCache env (withAnthropicCache env messages p) p = withAnthropicCache env messages p"
proof (cases "p = ''anthropic''")
  case False
  show ?thesis unfolding withAnthropicCache_other [OF False] by (rule refl)
next
  case True
  let ?out = "withAnthropicCache env messages ''anthropic''"
  have "withAnthropicCache env ?out ''anthropic'' = ?out"
  proof (rule nth_equalityI)
    show "length (withAnthropicCache env ?out ''anthropic'') = length ?out"
      by (simp only: length_withAnthropicCache)
  next
    fix i
    assume "i < length (withAnthropicCache env ?out ''anthropic'')"
    then have i: "i < length messages" and i': "i < length ?out"
      by (simp_all only: length_withAnthropicCache)
    have r: "role (?out ! i) = role (messages ! i)" by (rule role_nth_withAnthropicCache [OF i])
    have n: "length ?out = length messages" by (rule length_withAnthropicCache)
    show "withAnthropicCache env ?out ''anthropic'' ! i = ?out ! i"
      unfolding nth_withAnthropicCache [OF i'] r n
      unfolding nth_withAnthropicCache [OF i] by (rule annotated_twice)
  qed
  then show ?thesis unfolding True .
qed

text \<open>
  On the three messages, for \<open>anthropic\<close>: the annotation changes the sequence, and a
  second annotation changes nothing more.
\<close>

theorem annotate_idempotent_witness:
  "withAnthropicCache aenv msgs3 ''anthropic'' \<noteq> msgs3 \<and>
   withAnthropicCache aenv (withAnthropicCache aenv msgs3 ''anthropic'') ''anthropic'' =
     withAnthropicCache aenv msgs3 ''anthropic''"
proof -
  have "withAnthropicCache aenv msgs3 ''anthropic'' \<noteq> msgs3"
    by (simp add: withAnthropicCache_def msgs3_def enumerate_eq_zip withCache_def spread_def
        aenv_def Let_def)
  then show ?thesis using annotate_idempotent [of aenv msgs3 "''anthropic''"] by simp
qed

text \<open>
  C4. The annotation policy. For \<open>anthropic\<close> and a non-empty sequence the result has the
  length of the input; its first message is the input's first message with the
  long-retention hint when that message has role \<open>system\<close>, and the input's first
  message itself otherwise; its last message, when it is not also the first, is the input's
  last message with the short-retention hint; every message in between is the input's
  message, returned as it is. For the empty sequence and for any other provider the input
  is returned. \<open>withCache\<close> sets the hint it is given and keeps role and content. The
  function is a value-to-value map, so the input is never mutated.
\<close>

theorem annotate_policy:
  "withAnthropicCache env [] p = [] \<and>
   (p \<noteq> ''anthropic'' \<longrightarrow> withAnthropicCache env messages p = messages) \<and>
   (messages \<noteq> [] \<longrightarrow>
      length (withAnthropicCache env messages ''anthropic'') = length messages \<and>
      withAnthropicCache env messages ''anthropic'' ! 0 =
        (if role (messages ! 0) = system then withCache (messages ! 0) (CACHE_1H env)
         else messages ! 0) \<and>
      (1 < length messages \<longrightarrow>
         withAnthropicCache env messages ''anthropic'' ! (length messages - 1) =
           withCache (messages ! (length messages - 1)) (CACHE_5M env)) \<and>
      (\<forall>i. 0 < i \<and> i < length messages - 1 \<longrightarrow>
         withAnthropicCache env messages ''anthropic'' ! i = messages ! i)) \<and>
   cacheControl (withCache m c) = Some c \<and> role (withCache m c) = role m \<and>
   content (withCache m c) = content m"
proof -
  have empty: "withAnthropicCache env [] p = []" by (simp add: withAnthropicCache_def)
  have other: "p \<noteq> ''anthropic'' \<longrightarrow> withAnthropicCache env messages p = messages"
    by (simp add: withAnthropicCache_other)
  have first: "withAnthropicCache env messages ''anthropic'' ! 0 =
        (if role (messages ! 0) = system then withCache (messages ! 0) (CACHE_1H env)
         else messages ! 0)" if "messages \<noteq> []"
  proof -
    from that have "0 < length messages" by simp
    then show ?thesis unfolding nth_withAnthropicCache [OF \<open>0 < length messages\<close>] by simp
  qed
  have final: "withAnthropicCache env messages ''anthropic'' ! (length messages - 1) =
           withCache (messages ! (length messages - 1)) (CACHE_5M env)"
    if "1 < length messages"
  proof -
    from that have lt: "length messages - 1 < length messages" and "length messages - 1 \<noteq> 0"
      by simp_all
    then show ?thesis unfolding nth_withAnthropicCache [OF lt] by simp
  qed
  have interior: "withAnthropicCache env messages ''anthropic'' ! i = messages ! i"
    if "0 < i \<and> i < length messages - 1" for i
  proof -
    from that have lt: "i < length messages" and "i \<noteq> 0" and "i \<noteq> length messages - 1"
      by arith+
    then show ?thesis unfolding nth_withAnthropicCache [OF lt] by simp
  qed
  from empty other first final interior show ?thesis
    by (simp only: length_withAnthropicCache cacheControl_withCache role_withCache
        content_withCache) blast
qed

text \<open>
  On a system, a user and an assistant message: the first gets the long hint, the second
  is returned as it is, the third gets the short hint; for \<open>openai\<close> nothing changes.
\<close>

theorem annotate_policy_witness:
  "msgs3 \<noteq> [] \<and> length msgs3 = 3 \<and> role (msgs3 ! 0) = system \<and>
   withAnthropicCache aenv msgs3 ''openai'' = msgs3 \<and>
   length (withAnthropicCache aenv msgs3 ''anthropic'') = 3 \<and>
   cacheControl (withAnthropicCache aenv msgs3 ''anthropic'' ! 0) = Some ''1h'' \<and>
   withAnthropicCache aenv msgs3 ''anthropic'' ! 1 = msgs3 ! 1 \<and>
   cacheControl (withAnthropicCache aenv msgs3 ''anthropic'' ! 2) = Some ''5m''"
proof -
  have ne: "msgs3 \<noteq> []" and len: "length msgs3 = 3" and sys: "role (msgs3 ! 0) = system"
    by (simp_all add: msgs3_def)
  have c: "CACHE_1H aenv = ''1h''" "CACHE_5M aenv = ''5m''" by (simp_all add: aenv_def)
  note p = annotate_policy [of aenv "''openai''" msgs3 "msgs3 ! 0" "''1h''"]
  have other: "withAnthropicCache aenv msgs3 ''openai'' = msgs3" using p by simp
  have a: "length (withAnthropicCache aenv msgs3 ''anthropic'') = 3"
    and b: "withAnthropicCache aenv msgs3 ''anthropic'' ! 0 = withCache (msgs3 ! 0) ''1h''"
    and d: "withAnthropicCache aenv msgs3 ''anthropic'' ! 2 = withCache (msgs3 ! 2) ''5m''"
    using p ne by (simp_all add: len sys c)
  have "\<forall>i. 0 < i \<and> i < length msgs3 - 1 \<longrightarrow>
          withAnthropicCache aenv msgs3 ''anthropic'' ! i = msgs3 ! i"
    using p ne by blast
  then have "0 < (1::nat) \<and> 1 < length msgs3 - 1 \<longrightarrow>
          withAnthropicCache aenv msgs3 ''anthropic'' ! 1 = msgs3 ! 1"
    by (rule spec)
  then have e: "withAnthropicCache aenv msgs3 ''anthropic'' ! 1 = msgs3 ! 1"
    by (simp add: len)
  show ?thesis using e by (simp add: ne len sys other a b d cacheControl_withCache)
qed

section \<open>Sessions in the registry\<close>




text \<open>
  C9. A \<open>create\<close> that fails fails with \<open>NoModelConfigured\<close>, and by then the session
  that was resident for the conversation id has been stopped and removed: the registry
  holds no session for that id afterwards. The other entries are as they were.
\<close>

theorem create_failure_evicts:
  assumes "fst (create env c ac sel s) = Inl e"
  shows "e = NoModelConfigured \<and>
         agents (snd (create env c ac sel s)) (chat_id c) = None \<and>
         (\<forall>a. agents s (chat_id c) = Some a \<longrightarrow> stopped (snd (create env c ac sel s)) a) \<and>
         (\<forall>k. k \<noteq> chat_id c \<longrightarrow> agents (snd (create env c ac sel s)) k = agents s k)"
proof -
  have "agents (snd (create env c ac sel s)) k = agents s k" if "k \<noteq> chat_id c" for k
    using that by (simp add: create_def Let_def agents_disposeAgent split: sum.splits)
  then show ?thesis
    using create_error [OF assms] create_agents [of env c ac sel s] create_stops [of s c _ env ac sel]
    by (simp add: assms)
qed

text \<open>
  With the session of \<open>chat1\<close> resident and running, a \<open>create\<close> for a provider that
  is not configured fails, and the session is stopped and gone.
\<close>

theorem create_failure_evicts_witness:
  "agents state1 ''c1'' = Some (agent1 1) \<and> \<not> stopped state1 (agent1 1) \<and>
   fst (create env1 chat1 2 (Some mistral) state1) = Inl NoModelConfigured \<and>
   agents (snd (create env1 chat1 2 (Some mistral) state1)) ''c1'' = None \<and>
   stopped (snd (create env1 chat1 2 (Some mistral) state1)) (agent1 1) \<and>
   agents (snd (create env1 chat1 2 (Some mistral) state1)) ''c2'' = agents state1 ''c2''"
proof -
  have failed: "fst (create env1 chat1 2 (Some mistral) state1) = Inl NoModelConfigured"
    by (simp add: state1_def create_def disposeAgent_def stop_def Let_def
      getResolvedModelSelection_def getModelConfig_def truthy_def env1_def chat1_def
      mistral_def agent1_def)
  have resident: "agents state1 ''c1'' = Some (agent1 1)" by (simp add: state1_def)
  have id: "chat_id chat1 = ''c1''" by (simp add: chat1_def)
  show ?thesis
    using create_failure_evicts [OF failed] resident
    by (simp add: failed id) (simp add: state1_def stopped_def)
qed

text \<open>
  C8. \<open>stop\<close> is idempotent: stopping a session again, any number of times, gives the
  state one \<open>stop\<close> gives. It changes neither the registry, so that \<open>get\<close> answers as
  before and no entry is removed, nor the persisted messages.
\<close>

theorem stop_idempotent:
  "stop self (stop self s) = stop self s \<and>
   (stop self ^^ Suc n) s = stop self s \<and>
   agents (stop self s) = agents s \<and>
   get chatId (stop self s) = get chatId s \<and>
   upserts (stop self s) = upserts s"
proof -
  have idem: "stop self (stop self s) = stop self s" for s :: "('a, 'b) state"
    by (simp add: stop_def)
  have "(stop self ^^ Suc n) s = stop self s"
    by (induction n) (simp_all add: idem)
  then show ?thesis by (simp add: idem) (simp add: stop_def get_def)
qed

section \<open>Running a session\<close>

text \<open>
  When \<open>result\<close> is assigned and its usage is available, \<open>onFinish\<close> ends normally
  and has persisted exactly one message, the response message of the event, with the stop
  reason \<open>interrupted\<close> for an aborted run and the primitive's finish reason otherwise.
  Whatever \<open>onFinish\<close> persists carries that stop reason.
\<close>

lemma onFinish_persists:
  "(\<forall>u \<in> set (drop (length (upserts s)) (upserts (snd (onFinish env self vars e s)))).
      up_stopReason u = (if isAborted e then Some ''interrupted'' else ev_finishReason e) \<and>
      up_error u = var_error vars) \<and>
   (var_result vars = Some result \<and> totalUsage result = Inr usage' \<longrightarrow>
      fst (onFinish env self vars e s) = Inr () \<and>
      (\<exists>u. upserts (snd (onFinish env self vars e s)) = upserts s @ [u] \<and>
           up_message u = responseMessage e \<and> up_chatId u = chat_id (chat self) \<and>
           up_stopReason u = (if isAborted e then Some ''interrupted'' else ev_finishReason e) \<and>
           up_error u = var_error vars))"
  by (simp add: onFinish_def upsertMessage_def onDispose_def Let_def split: option.splits sum.splits)

text \<open>
  C6, where the code departs from it. The run was aborted, and either the usage promise
  of \<open>result\<close> is rejected or \<open>result\<close> was never assigned. \<open>onFinish\<close> has
  computed \<open>interrupted\<close> (line 203), but it awaits the usage (line 204) before it
  persists: it raises, and the state is the one it started in, with no message persisted.
  With the usage available, the same event is persisted as \<open>interrupted\<close>.
\<close>

theorem onFinish_aborted_not_persisted:
  "isAborted ev_aborted \<and> upserts state1 = [] \<and>
   onFinish aenv (agent1 1) vars_rejected ev_aborted state1 =
     (Inl (Error ''No output generated.''), state1) \<and>
   onFinish aenv (agent1 1) stream_vars0 ev_aborted state1 =
     (Inl (TypeError ''Cannot read properties of undefined (reading 'totalUsage')''), state1) \<and>
   map up_stopReason (upserts (snd (onFinish aenv (agent1 1) vars_ok ev_aborted state1))) =
     [Some ''interrupted'']"
  by (simp add: onFinish_def vars_rejected_def stream_vars0_def vars_ok_def ev_aborted_def
      state1_def upsertMessage_def onDispose_def Let_def)

text \<open>
  C10. When the generation primitive returns a result, \<open>generate\<close> returns one too, and
  its finish reason is \<open>stop\<close> when the primitive's result carries none (and the
  primitive's finish reason when it carries one).
\<close>

theorem generate_default_finishReason:
  assumes "agent_generate env (modelConfig self)
             (buildInitialMessages env messages (provider (modelSelection self)))
             (abortController self) = Inr result"
  shows "\<exists>r. fst (generate env elapsed self messages s) = Inr r \<and>
             (gen_finishReason result = None \<longrightarrow> finishReason r = ''stop'') \<and>
             (\<forall>fr. gen_finishReason result = Some fr \<longrightarrow> finishReason r = fr)"
  using assms by (simp add: generate_def Let_def)

text \<open>
  The primitive of \<open>aenv\<close> gives no finish reason, and \<open>generate\<close> answers \<open>stop\<close>;
  that of \<open>aenv_length\<close> gives \<open>length\<close>, which \<open>generate\<close> passes on.
\<close>

theorem generate_default_finishReason_witness:
  "(\<exists>result. agent_generate aenv (modelConfig (agent1 1))
        (buildInitialMessages aenv [''hi''] (provider (modelSelection (agent1 1))))
        (abortController (agent1 1)) = Inr result \<and> gen_finishReason result = None) \<and>
   (\<exists>r. fst (generate aenv 5 (agent1 1) [''hi''] state1) = Inr r \<and> finishReason r = ''stop'') \<and>
   (\<exists>r. fst (generate aenv_length 5 (agent1 1) [''hi''] state1) = Inr r \<and>
        finishReason r = ''length'')"
proof -
  define result :: "(string, nat) GenerateTextResult" where
    "result = \<lparr>gen_text = ''hello'', gen_totalUsage = 7, gen_finishReason = None,
             gen_responseMessages = [], gen_steps = []\<rparr>"
  have call: "agent_generate aenv (modelConfig (agent1 1))
        (buildInitialMessages aenv [''hi''] (provider (modelSelection (agent1 1))))
        (abortController (agent1 1)) = Inr result"
    by (simp add: aenv_def result_def)
  have none: "gen_finishReason result = None" by (simp add: result_def)
  define result' :: "(string, nat) GenerateTextResult" where
    "result' = \<lparr>gen_text = ''hel'', gen_totalUsage = 9, gen_finishReason = Some ''length'',
             gen_responseMessages = [], gen_steps = []\<rparr>"
  have call': "agent_generate aenv_length (modelConfig (agent1 1))
        (buildInitialMessages aenv_length [''hi''] (provider (modelSelection (agent1 1))))
        (abortController (agent1 1)) = Inr result'"
    by (simp add: aenv_length_def aenv_def result'_def)
  have some: "gen_finishReason result' = Some ''length''" by (simp add: result'_def)
  show ?thesis
    using generate_default_finishReason [OF call, of 5 state1]
      generate_default_finishReason [OF call', of 5 state1] call none some
    by auto
qed

subsection \<open>Disposal\<close>

text \<open>
  When the primitive returns, \<open>generate\<close> runs the disposal callback once; when the
  primitive raises, the exception leaves \<open>generate\<close> before the callback, and the state
  is the one the call started in.
\<close>

lemma generate_success_disposes:
  assumes "agent_generate env (modelConfig self)
             (buildInitialMessages env messages (provider (modelSelection self)))
             (abortController self) = Inr result"
  shows "snd (generate env elapsed self messages s) = onDispose self s"
  using assms by (simp add: generate_def Let_def)

lemma generate_failure:
  assumes "agent_generate env (modelConfig self)
             (buildInitialMessages env messages (provider (modelSelection self)))
             (abortController self) = Inl e"
  shows "generate env elapsed self messages s = (Inl e, s)"
  using assms by (simp add: generate_def)

text \<open>
  In the stream path \<open>onFinish\<close> reaches the callback only after it has read the usage:
  when \<open>execute\<close> failed before it assigned \<open>result\<close>, \<open>onFinish\<close> raises and
  neither persists nor disposes.
\<close>

lemma execute_failure_leaves_vars:
  assumes "agent_stream env (modelConfig self)
             (buildInitialMessages env uiMessages (provider (modelSelection self)))
             (abortController self) = Inl err"
  shows "execute env self uiMessages sendNewChatData vars =
           (Inl err,
            if sendNewChatData
            then [data_newChat (chat_id (chat self)) (chat_title (chat self))
                    (createdAt (chat self)) (updatedAt (chat self))]
            else [],
            vars)"
  using assms by (simp add: execute_def Let_def)

lemma onFinish_without_result:
  assumes "var_result vars = None"
  shows "snd (onFinish env self vars e s) = s \<and> (\<exists>err. fst (onFinish env self vars e s) = Inl err)"
  using assms by (simp add: onFinish_def)

lemma onFinish_disposes:
  assumes "var_result vars = Some result" and "totalUsage result = Inr usage'"
  shows "agents (snd (onFinish env self vars e s)) = (agents s)(chat_id (chat self) := None)"
  using assms by (simp add: onFinish_def upsertMessage_def onDispose_def Let_def)

text \<open>
  C2, where the code departs from it. The session of \<open>chat1\<close> is resident; its
  \<open>generate\<close> call fails because the primitive raises. The call returns the error and
  the state it started in: the disposal callback has not run, and the session is still
  in the registry. With a primitive that returns, the same call removes the entry.
\<close>

theorem generate_failure_keeps_session:
  "agents state1 ''c1'' = Some (agent1 1) \<and>
   generate aenv_failing 5 (agent1 1) [''hi''] state1 =
     (Inl (Error ''provider unavailable''), state1) \<and>
   get ''c1'' (snd (generate aenv_failing 5 (agent1 1) [''hi''] state1)) = Some (agent1 1) \<and>
   get ''c1'' (snd (generate aenv 5 (agent1 1) [''hi''] state1)) = None"
  by (simp add: generate_def aenv_failing_def aenv_def state1_def get_def onDispose_def
      agent1_def chat1_def Let_def)

end
